theory Spec2Isabelle
  imports Main
begin

section \<open>The booking-availability handler of doctorController.js\<close>

text \<open>
  The development embeds \<^verbatim>\<open>exports.checkBookingAvailability\<close>
  (Backend/controllers/doctorController.js, lines 109 to 154). The handler looks the doctor
  up, parses three wall-clock times with the moment library, compares them, queries the
  appointment collection with a string range on the \<^verbatim>\<open>time\<close> field and answers
  either through \<^verbatim>\<open>next(new AppError(msg, code))\<close> or with a JSON body.

  The moment library and the document store are not part of the repository. The parts of
  them the handler calls are written out below as executable functions: moment's forgiving
  (non-strict) format parser for the tokens \<^verbatim>\<open>HH hh mm A\<close> and literal characters, its
  choice among several formats, \<^verbatim>\<open>add\<close>, \<^verbatim>\<open>subtract\<close>, \<^verbatim>\<open>isBefore\<close>,
  \<^verbatim>\<open>isAfter\<close>, \<^verbatim>\<open>format\<close>, and the store's \<^verbatim>\<open>findOne\<close> and \<^verbatim>\<open>find\<close>
  with equality, \<^verbatim>\<open>$ne\<close>, \<^verbatim>\<open>$gte\<close> and \<^verbatim>\<open>$lte\<close> on string fields. What the
  handler reads apart from its arguments, the time zone of the server and the clock, is a
  parameter of the model.
\<close>

subsection \<open>Strings and their order\<close>

text \<open>
  The store compares two strings byte by byte (no collation is configured), a proper prefix
  being the smaller one. Characters are compared by their code.
\<close>

definition char_code :: "char \<Rightarrow> nat" where
  "char_code c = of_char c"

fun string_le :: "string \<Rightarrow> string \<Rightarrow> bool" where
  "string_le [] ys = True"
| "string_le (x # xs) [] = False"
| "string_le (x # xs) (y # ys) =
     (if char_code x < char_code y then True
      else if x = y then string_le xs ys
      else False)"

text \<open>\<^verbatim>\<open>$gte\<close> is \<^verbatim>\<open>$lte\<close> with the arguments exchanged.\<close>

definition string_ge :: "string \<Rightarrow> string \<Rightarrow> bool" where
  "string_ge a b = string_le b a"

subsection \<open>The regular expressions of moment's parser\<close>

text \<open>
  Each function searches its pattern in the string, as \<^verbatim>\<open>string.match(regex)\<close> does, and
  returns the matched text with what follows it; \<open>None\<close> when the pattern occurs nowhere.
  The text before the match is skipped by the parser and never looked at again.
\<close>

definition is_digit :: "char \<Rightarrow> bool" where
  "is_digit c = (48 \<le> char_code c \<and> char_code c \<le> 57)"

text \<open>\<^verbatim>\<open>match1to2 = /\d\d?/\<close>, the non-strict pattern of \<^verbatim>\<open>HH\<close>, \<^verbatim>\<open>hh\<close> and \<^verbatim>\<open>mm\<close>.\<close>

fun match1to2 :: "string \<Rightarrow> (string \<times> string) option" where
  "match1to2 [] = None"
| "match1to2 (c # cs) =
     (if is_digit c then
        (case cs of
           [] \<Rightarrow> Some ([c], [])
         | d # ds \<Rightarrow> if is_digit d then Some ([c, d], ds) else Some ([c], cs))
      else match1to2 cs)"

text \<open>A character of the format that is no token is searched as it stands.\<close>

fun match_literal :: "char \<Rightarrow> string \<Rightarrow> (string \<times> string) option" where
  "match_literal l [] = None"
| "match_literal l (c # cs) = (if c = l then Some ([c], cs) else match_literal l cs)"

text \<open>
  \<^verbatim>\<open>defaultLocaleMeridiemParse = /[ap]\.?m?\.?/i\<close>: every part after the first letter is
  optional and greedy, and nothing follows, so the match never backtracks.
\<close>

definition optional_char :: "(char \<Rightarrow> bool) \<Rightarrow> string \<Rightarrow> string \<times> string" where
  "optional_char p s =
     (case s of
        [] \<Rightarrow> ([], [])
      | c # cs \<Rightarrow> if p c then ([c], cs) else ([], s))"

definition is_ap :: "char \<Rightarrow> bool" where
  "is_ap c = (c = CHR ''a'' \<or> c = CHR ''p'' \<or> c = CHR ''A'' \<or> c = CHR ''P'')"

definition is_dot :: "char \<Rightarrow> bool" where
  "is_dot c = (c = CHR ''.'')"

definition is_m :: "char \<Rightarrow> bool" where
  "is_m c = (c = CHR ''m'' \<or> c = CHR ''M'')"

fun matchMeridiem :: "string \<Rightarrow> (string \<times> string) option" where
  "matchMeridiem [] = None"
| "matchMeridiem (c # cs) =
     (if is_ap c then
        (case optional_char is_dot cs of (m1, r1) \<Rightarrow>
         case optional_char is_m r1 of (m2, r2) \<Rightarrow>
         case optional_char is_dot r2 of (m3, r3) \<Rightarrow>
           Some (c # m1 @ m2 @ m3, r3))
      else matchMeridiem cs)"

subsection \<open>Parsing one format\<close>

text \<open>
  The two formats of the handler, split into tokens the way moment's
  \<^verbatim>\<open>formattingTokens\<close> splits them.
\<close>

datatype token = Tok_HH | Tok_hh | Tok_mm | Tok_A | Tok_literal char

definition format_HH_mm :: "token list" where
  "format_HH_mm = [Tok_HH, Tok_literal (CHR '':''), Tok_mm]"

definition format_hh_mm_A :: "token list" where
  "format_hh_mm_A =
     [Tok_hh, Tok_literal (CHR '':''), Tok_mm, Tok_literal (CHR '' ''), Tok_A]"

fun getParseRegexForToken :: "token \<Rightarrow> string \<Rightarrow> (string \<times> string) option" where
  "getParseRegexForToken Tok_HH = match1to2"
| "getParseRegexForToken Tok_hh = match1to2"
| "getParseRegexForToken Tok_mm = match1to2"
| "getParseRegexForToken Tok_A = matchMeridiem"
| "getParseRegexForToken (Tok_literal l) = match_literal l"

text \<open>
  The parsing state of \<^verbatim>\<open>configFromStringAndFormat\<close>: the hour and minute slots of
  \<^verbatim>\<open>config._a\<close>, \<^verbatim>\<open>config._meridiem\<close>, the parsing flags \<^verbatim>\<open>empty\<close> and
  \<^verbatim>\<open>unusedTokens\<close> (its length), \<^verbatim>\<open>totalParsedInputLength\<close> and the rest of the input.
  The flag \<^verbatim>\<open>bigHour\<close> is read in strict mode only and is left out.
\<close>

record config =
  a_HOUR :: "nat option"
  a_MINUTE :: "nat option"
  meridiem :: "string option"
  empty :: bool
  unusedTokens :: nat
  totalParsedInputLength :: nat
  rest :: string

definition toInt :: "string \<Rightarrow> nat" where
  "toInt s = foldl (\<lambda>n c. 10 * n + (char_code c - 48)) 0 s"

fun addTimeToArrayFromToken :: "token \<Rightarrow> string \<Rightarrow> config \<Rightarrow> config" where
  "addTimeToArrayFromToken Tok_HH input c = c\<lparr>a_HOUR := Some (toInt input)\<rparr>"
| "addTimeToArrayFromToken Tok_hh input c = c\<lparr>a_HOUR := Some (toInt input)\<rparr>"
| "addTimeToArrayFromToken Tok_mm input c = c\<lparr>a_MINUTE := Some (toInt input)\<rparr>"
| "addTimeToArrayFromToken Tok_A input c = c\<lparr>meridiem := Some input\<rparr>"
| "addTimeToArrayFromToken (Tok_literal l) input c = c"

fun is_literal :: "token \<Rightarrow> bool" where
  "is_literal (Tok_literal l) = True"
| "is_literal t = False"

text \<open>The body of the loop over the tokens of the format.\<close>

definition parse_token :: "config \<Rightarrow> token \<Rightarrow> config" where
  "parse_token c t =
     (case getParseRegexForToken t (rest c) of
        None \<Rightarrow>
          if is_literal t then c else c\<lparr>unusedTokens := unusedTokens c + 1\<rparr>
      | Some (parsedInput, remaining) \<Rightarrow>
          (let c1 = c\<lparr>rest := remaining,
                      totalParsedInputLength := totalParsedInputLength c + length parsedInput\<rparr>
           in if is_literal t then c1
              else addTimeToArrayFromToken t parsedInput (c1\<lparr>empty := False\<rparr>)))"

definition isPM :: "string \<Rightarrow> bool" where
  "isPM input = (case input of [] \<Rightarrow> False | c # cs \<Rightarrow> c = CHR ''p'' \<or> c = CHR ''P'')"

definition meridiemFixWrap :: "nat option \<Rightarrow> string option \<Rightarrow> nat option" where
  "meridiemFixWrap hour mer =
     (case mer of
        None \<Rightarrow> hour
      | Some m \<Rightarrow>
          (case hour of
             None \<Rightarrow> None
           | Some h \<Rightarrow>
               if isPM m then (if h < 12 then Some (h + 12) else Some h)
               else (if h = 12 then Some 0 else Some h)))"

text \<open>
  What one format makes of a string: whether the result is valid (\<^verbatim>\<open>isValid\<close>: no
  overflow, not empty, and a meridiem only together with a parsed hour or minute), the time
  as minutes after the midnight that starts the current day, and the score of the format
  (\<^verbatim>\<open>charsLeftOver + 10 * unusedTokens.length\<close>). Year, month and day default to the
  current date, a missing hour or minute to zero; \<^verbatim>\<open>24:00\<close> is the next midnight.
\<close>

record parsed =
  isValid :: bool
  minutes :: nat
  score :: nat

definition is_some :: "'a option \<Rightarrow> bool" where
  "is_some x = (case x of None \<Rightarrow> False | Some y \<Rightarrow> True)"

definition configFromStringAndFormat :: "token list \<Rightarrow> string \<Rightarrow> parsed" where
  "configFromStringAndFormat f input =
     (let c = foldl parse_token
                \<lparr>a_HOUR = None, a_MINUTE = None, meridiem = None, empty = True,
                 unusedTokens = 0, totalParsedInputLength = 0, rest = input\<rparr> f;
          charsLeftOver = length input - totalParsedInputLength c;
          parsedParts = (is_some (a_HOUR c) \<or> is_some (a_MINUTE c));
          h = (case meridiemFixWrap (a_HOUR c) (meridiem c) of None \<Rightarrow> 0 | Some x \<Rightarrow> x);
          m = (case a_MINUTE c of None \<Rightarrow> 0 | Some x \<Rightarrow> x);
          overflow = (24 < h \<or> (h = 24 \<and> 0 < m) \<or> 59 < m)
      in \<lparr>isValid = (if overflow then False
                     else if empty c then False
                     else if is_some (meridiem c) then parsedParts
                     else True),
          minutes = h * 60 + m,
          score = charsLeftOver + 10 * unusedTokens c\<rparr>)"

subsection \<open>Parsing with a list of formats\<close>

text \<open>
  \<^verbatim>\<open>configFromStringAndArray\<close> (moment 2.25 and later): every format is tried; the first
  valid format replaces whatever was best before, and after that only a format with a
  strictly smaller score replaces the best one. With no format at all the result is
  invalid. (Earlier versions skip invalid formats and keep the smallest score among the
  valid ones; on the two formats of the handler both rules choose the same result, since
  the two formats read the same hour and minute digits and are valid together.)
\<close>

record best =
  bestMoment :: "parsed option"
  scoreToBeat :: "nat option"
  bestFormatIsValid :: bool

definition try_format :: "string \<Rightarrow> best \<Rightarrow> token list \<Rightarrow> best" where
  "try_format input b f =
     (let tempConfig = configFromStringAndFormat f input;
          currentScore = score tempConfig;
          validFormatFound = isValid tempConfig;
          better = (case scoreToBeat b of None \<Rightarrow> True | Some s \<Rightarrow> currentScore < s)
      in if bestFormatIsValid b then
           (if better
            then b\<lparr>bestMoment := Some tempConfig, scoreToBeat := Some currentScore\<rparr>
            else b)
         else if better \<or> validFormatFound
         then \<lparr>bestMoment = Some tempConfig, scoreToBeat = Some currentScore,
               bestFormatIsValid = validFormatFound\<rparr>
         else b)"

definition configFromStringAndArray :: "token list list \<Rightarrow> string \<Rightarrow> parsed" where
  "configFromStringAndArray fs input =
     (case bestMoment (foldl (try_format input)
             \<lparr>bestMoment = None, scoreToBeat = None, bestFormatIsValid = False\<rparr> fs) of
        None \<Rightarrow> \<lparr>isValid = False, minutes = 0, score = 0\<rparr>
      | Some p \<Rightarrow> p)"

subsection \<open>Moments\<close>

text \<open>
  A moment is invalid or a point in time. The handler only builds moments whose seconds and
  milliseconds are zero, so a valid moment is an instant counted in minutes.

  Besides its arguments moment reads two things of the server. The first is the time zone,
  which the model takes as a parameter, with the two conversions the library uses:
  \<^verbatim>\<open>new Date(y, m, d, h, mi)\<close> turns a local calendar day (as a day number) and a
  minute of that day into an instant, and \<^verbatim>\<open>getHours\<close>, \<^verbatim>\<open>getMinutes\<close> turn an
  instant into local time (as local minutes, day number times 1440 plus minute of the
  day). Nothing is assumed of the two functions; a zone whose offset changes is a zone like
  any other. The second is the clock: a string with no date in it is parsed onto the
  current local day, \<open>today\<close>, which every call of \<^verbatim>\<open>moment(...)\<close> reads anew.
\<close>

datatype moment = Invalid | Valid int

record zone =
  localToInstant :: "int \<Rightarrow> nat \<Rightarrow> int"
  instantToLocal :: "int \<Rightarrow> int"

definition to_moment :: "zone \<Rightarrow> int \<Rightarrow> parsed \<Rightarrow> moment" where
  "to_moment z today p =
     (if isValid p then Valid (localToInstant z today (minutes p)) else Invalid)"

definition moment_format :: "zone \<Rightarrow> int \<Rightarrow> string \<Rightarrow> token list \<Rightarrow> moment" where
  "moment_format z today input f = to_moment z today (configFromStringAndFormat f input)"

definition moment_formats :: "zone \<Rightarrow> int \<Rightarrow> string \<Rightarrow> token list list \<Rightarrow> moment" where
  "moment_formats z today input fs = to_moment z today (configFromStringAndArray fs input)"

text \<open>
  \<^verbatim>\<open>add\<close> and \<^verbatim>\<open>subtract\<close> of minutes move the instant, and leave an invalid
  moment as it is.
\<close>

fun subtract_minutes :: "moment \<Rightarrow> int \<Rightarrow> moment" where
  "subtract_minutes Invalid n = Invalid"
| "subtract_minutes (Valid t) n = Valid (t - n)"

fun add_minutes :: "moment \<Rightarrow> int \<Rightarrow> moment" where
  "add_minutes Invalid n = Invalid"
| "add_minutes (Valid t) n = Valid (t + n)"

text \<open>A comparison with an invalid moment on either side is false.\<close>

fun isBefore :: "moment \<Rightarrow> moment \<Rightarrow> bool" where
  "isBefore (Valid a) (Valid b) = (a < b)"
| "isBefore x y = False"

fun isAfter :: "moment \<Rightarrow> moment \<Rightarrow> bool" where
  "isAfter (Valid a) (Valid b) = (b < a)"
| "isAfter x y = False"

text \<open>The hour and the minute of a local time.\<close>

definition hours :: "int \<Rightarrow> nat" where
  "hours l = nat ((l mod 1440) div 60)"

definition minute :: "int \<Rightarrow> nat" where
  "minute l = nat (l mod 60)"

definition digit_char :: "nat \<Rightarrow> char" where
  "digit_char n = char_of (48 + n)"

text \<open>\<^verbatim>\<open>zeroFill(n, 2)\<close> for the hours and minutes of a day, which are below 100.\<close>

definition zeroFill2 :: "nat \<Rightarrow> string" where
  "zeroFill2 n = [digit_char (n div 10), digit_char (n mod 10)]"

definition invalidDate :: string where
  "invalidDate = ''Invalid date''"

text \<open>\<^verbatim>\<open>format\<close> shows the local time of the instant in the server's zone.\<close>

fun format_HHmm :: "zone \<Rightarrow> moment \<Rightarrow> string" where
  "format_HHmm z Invalid = invalidDate"
| "format_HHmm z (Valid t) =
     zeroFill2 (hours (instantToLocal z t)) @ '':'' @ zeroFill2 (minute (instantToLocal z t))"

fun format_hhmmA :: "zone \<Rightarrow> moment \<Rightarrow> string" where
  "format_hhmmA z Invalid = invalidDate"
| "format_hhmmA z (Valid t) =
     zeroFill2 (if hours (instantToLocal z t) mod 12 = 0 then 12
                else hours (instantToLocal z t) mod 12) @ '':'' @
     zeroFill2 (minute (instantToLocal z t)) @ '' '' @
     (if 11 < hours (instantToLocal z t) then ''PM'' else ''AM'')"

subsection \<open>The collections and the handler\<close>

text \<open>
  The fields of the doctor and appointment documents the handler reads, and the fields of
  the request body. \<^verbatim>\<open>status\<close> is any string: the query excludes the one value
  \<^verbatim>\<open>rejected\<close>.
\<close>

record doctor =
  userId :: string
  fromTime :: string
  toTime :: string

record appointment =
  doctorId :: string
  date :: string
  time :: string
  status :: string

record body =
  body_doctorId :: string
  body_date :: string
  body_time :: string

record database =
  Doctor :: "doctor list"
  Appointment :: "appointment list"

text \<open>
  The two ways the handler answers: \<^verbatim>\<open>next(new AppError(message, statusCode))\<close>, and
  \<^verbatim>\<open>res.status(200).json({status, message})\<close>.
\<close>

datatype app_error = AppError string nat

datatype json = Json bool string

type_synonym response = "app_error + json"

definition findOne :: "string \<Rightarrow> doctor list \<Rightarrow> doctor option" where
  "findOne uid ds = find (\<lambda>d. userId d = uid) ds"

definition find_appointments ::
  "string \<Rightarrow> string \<Rightarrow> string \<Rightarrow> string \<Rightarrow> appointment list \<Rightarrow> appointment list" where
  "find_appointments did dt gte lte as =
     filter (\<lambda>a. doctorId a = did \<and> date a = dt \<and>
                 string_ge (time a) gte \<and> string_le (time a) lte \<and>
                 status a \<noteq> ''rejected'') as"

definition working_hours_message :: "string \<Rightarrow> string \<Rightarrow> string" where
  "working_hours_message displayFromTime displayToTime =
     ''Please select a time within doctor's working hours '' @
     displayFromTime @ '' to '' @ displayToTime"

text \<open>
  The clock as the handler sees it: the local day that each of its three calls of
  \<^verbatim>\<open>moment(...)\<close> reads, in the order of lines 115, 116 and 119. The three readings are
  equal unless midnight passes between the calls.
\<close>

record clock =
  today_fromTime :: int
  today_toTime :: int
  today_requested :: int

definition checkBookingAvailability ::
  "zone \<Rightarrow> clock \<Rightarrow> database \<Rightarrow> body \<Rightarrow> response" where
  "checkBookingAvailability z c db req =
     (case findOne (body_doctorId req) (Doctor db) of
        None \<Rightarrow> Inl (AppError ''Doctor not found'' 404)
      | Some doc \<Rightarrow>
          (let doctorFromTime = moment_format z (today_fromTime c) (fromTime doc) format_HH_mm;
               doctorToTime = moment_format z (today_toTime c) (toTime doc) format_HH_mm;
               requestedTime = moment_formats z (today_requested c) (body_time req)
                                 [format_HH_mm, format_hh_mm_A];
               fromTime' = subtract_minutes requestedTime 30;
               toTime' = add_minutes requestedTime 15;
               displayFromTime = format_hhmmA z doctorFromTime;
               displayToTime = format_hhmmA z doctorToTime
           in if isBefore requestedTime doctorFromTime \<or> isAfter requestedTime doctorToTime
              then Inl (AppError (working_hours_message displayFromTime displayToTime) 400)
              else
                (let appointments =
                       find_appointments (body_doctorId req) (body_date req)
                         (format_HHmm z fromTime') (format_HHmm z toTime') (Appointment db)
                 in if 0 < length appointments
                    then Inl (AppError ''Appointment not available'' 400)
                    else Inr (Json True ''Appointment available''))))"

subsection \<open>Names for the parts of the handler and for its answers\<close>

text \<open>
  The local constants of the handler, as functions of what they are computed from, so that
  the theorems below can speak about them.
\<close>

definition doctorFromTime :: "zone \<Rightarrow> clock \<Rightarrow> doctor \<Rightarrow> moment" where
  "doctorFromTime z c doc = moment_format z (today_fromTime c) (fromTime doc) format_HH_mm"

definition doctorToTime :: "zone \<Rightarrow> clock \<Rightarrow> doctor \<Rightarrow> moment" where
  "doctorToTime z c doc = moment_format z (today_toTime c) (toTime doc) format_HH_mm"

definition requestedTime :: "zone \<Rightarrow> clock \<Rightarrow> body \<Rightarrow> moment" where
  "requestedTime z c req =
     moment_formats z (today_requested c) (body_time req) [format_HH_mm, format_hh_mm_A]"

definition windowStart :: "zone \<Rightarrow> clock \<Rightarrow> body \<Rightarrow> string" where
  "windowStart z c req = format_HHmm z (subtract_minutes (requestedTime z c req) 30)"

definition windowEnd :: "zone \<Rightarrow> clock \<Rightarrow> body \<Rightarrow> string" where
  "windowEnd z c req = format_HHmm z (add_minutes (requestedTime z c req) 15)"

text \<open>
  An appointment the query of the handler selects: same doctor, same date string, time
  string within the two bounds, status other than \<^verbatim>\<open>rejected\<close>.
\<close>

definition in_window :: "zone \<Rightarrow> clock \<Rightarrow> body \<Rightarrow> appointment \<Rightarrow> bool" where
  "in_window z c req a =
     (doctorId a = body_doctorId req \<and> date a = body_date req \<and>
      string_ge (time a) (windowStart z c req) \<and> string_le (time a) (windowEnd z c req))"

text \<open>The four answers of the handler, under the names the specification gives them.\<close>

definition DoctorNotFound :: response where
  "DoctorNotFound = Inl (AppError ''Doctor not found'' 404)"

definition OutOfWorkingHours :: "string \<Rightarrow> string \<Rightarrow> response" where
  "OutOfWorkingHours displayFromTime displayToTime =
     Inl (AppError (working_hours_message displayFromTime displayToTime) 400)"

definition SlotConflict :: response where
  "SlotConflict = Inl (AppError ''Appointment not available'' 400)"

definition Available :: response where
  "Available = Inr (Json True ''Appointment available'')"



text \<open>
  The zone with no offset, where an instant and its local time are the same number; and
  the clock that shows one day \<open>d\<close> at all three calls.
\<close>

definition utc :: zone where
  "utc = \<lparr>localToInstant = (\<lambda>d m. d * 1440 + int m), instantToLocal = (\<lambda>t. t)\<rparr>"

definition on_day :: "int \<Rightarrow> clock" where
  "on_day d = \<lparr>today_fromTime = d, today_toTime = d, today_requested = d\<rparr>"

text \<open>
  A time of day, \<open>k\<close> minutes after midnight, written in the two forms a request may use.
\<close>

definition text24 :: "nat \<Rightarrow> string" where
  "text24 k = format_HHmm utc (Valid (int k))"

definition text12 :: "nat \<Rightarrow> string" where
  "text12 k = format_hhmmA utc (Valid (int k))"

text \<open>The hour that \<^verbatim>\<open>hh\<close> shows for a time of day: \<^verbatim>\<open>hours % 12 || 12\<close>.\<close>

definition hour12 :: "nat \<Rightarrow> nat" where
  "hour12 k = (if (k div 60) mod 12 = 0 then 12 else (k div 60) mod 12)"

text \<open>A moment moved by \<open>k\<close> minutes.\<close>

fun shift :: "int \<Rightarrow> moment \<Rightarrow> moment" where
  "shift k Invalid = Invalid"
| "shift k (Valid t) = Valid (k + t)"

subsection \<open>Concrete inputs\<close>

text \<open>
  A clinic with one doctor, appointments on one date, and requests for that doctor and
  date. They serve as the inputs at which the theorems below are instantiated.
\<close>

definition doctor_9_to_5 :: doctor where
  "doctor_9_to_5 = \<lparr>userId = ''d1'', fromTime = ''09:00'', toTime = ''17:00''\<rparr>"

definition doctor_all_day :: doctor where
  "doctor_all_day = \<lparr>userId = ''d1'', fromTime = ''00:00'', toTime = ''23:59''\<rparr>"

definition doctor_12_hour :: doctor where
  "doctor_12_hour = \<lparr>userId = ''d1'', fromTime = ''09:00 AM'', toTime = ''05:00 PM''\<rparr>"

definition doctor_2_to_3 :: doctor where
  "doctor_2_to_3 = \<lparr>userId = ''d1'', fromTime = ''02:00'', toTime = ''03:00''\<rparr>"

definition doctor_no_hours :: doctor where
  "doctor_no_hours = \<lparr>userId = ''d1'', fromTime = ''morning'', toTime = ''evening''\<rparr>"

definition booked :: "string \<Rightarrow> string \<Rightarrow> appointment" where
  "booked t s = \<lparr>doctorId = ''d1'', date = ''2024-05-01'', time = t, status = s\<rparr>"

definition request_at :: "string \<Rightarrow> body" where
  "request_at t = \<lparr>body_doctorId = ''d1'', body_date = ''2024-05-01'', body_time = t\<rparr>"

definition clinic :: "doctor \<Rightarrow> appointment list \<Rightarrow> database" where
  "clinic d as = \<lparr>Doctor = [d], Appointment = as\<rparr>"

text \<open>
  A clock on which midnight passes after the doctor's two times are parsed and before the
  requested time is.
\<close>

definition clock_over_midnight :: clock where
  "clock_over_midnight = \<lparr>today_fromTime = 0, today_toTime = 0, today_requested = 1\<rparr>"

text \<open>
  A zone that moves its clocks forward by one hour on day 1 at 02:00: local times from
  02:00 to 02:59 of that day do not exist and are read with the offset before the change,
  as \<^verbatim>\<open>new Date\<close> does, so that 02:30 is the instant that shows as 03:30.
\<close>

definition zone_dst :: zone where
  "zone_dst =
     \<lparr>localToInstant = (\<lambda>d m. if d * 1440 + int m < 1620 then d * 1440 + int m
                                else d * 1440 + int m - 60),
      instantToLocal = (\<lambda>t. if t < 1560 then t else t + 60)\<rparr>"

section \<open>Auxiliary facts\<close>

subsection \<open>Digits and two-digit numbers\<close>

lemma char_code_inj: "(char_code a = char_code b) = (a = b)"
  by (auto simp add: char_code_def)

lemma char_code_digit_char: "n < 10 \<Longrightarrow> char_code (digit_char n) = 48 + n"
  by (simp add: char_code_def digit_char_def)

lemma digit_char_eq_iff: "n < 10 \<Longrightarrow> (digit_char n = c) = (char_code c = 48 + n)"
  using char_code_inj[of "digit_char n" c] by (auto simp add: char_code_digit_char)

lemma is_digit_digit_char: "n < 10 \<Longrightarrow> is_digit (digit_char n)"
  by (simp add: is_digit_def char_code_digit_char)

lemma digit_char_eq: "a < 10 \<Longrightarrow> b < 10 \<Longrightarrow> (digit_char a = digit_char b) = (a = b)"
  by (auto simp add: digit_char_eq_iff char_code_digit_char)

lemma toInt2: "a < 10 \<Longrightarrow> b < 10 \<Longrightarrow> toInt [digit_char a, digit_char b] = 10 * a + b"
  by (simp add: toInt_def char_code_digit_char)

lemma toInt_zeroFill2: "n < 100 \<Longrightarrow> toInt (zeroFill2 n) = n"
  by (simp add: zeroFill2_def toInt2)

lemma match1to2_zeroFill2: "n < 100 \<Longrightarrow> match1to2 (zeroFill2 n @ s) = Some (zeroFill2 n, s)"
  by (simp add: zeroFill2_def is_digit_digit_char)


subsection \<open>The parser on well-formed times\<close>

lemma length_zeroFill2: "length (zeroFill2 n) = 2"
  by (simp add: zeroFill2_def)

lemma matchMeridiem_AM: "matchMeridiem ''AM'' = Some (''AM'', [])"
  by (simp add: is_ap_def optional_char_def is_dot_def is_m_def)

lemma matchMeridiem_PM: "matchMeridiem ''PM'' = Some (''PM'', [])"
  by (simp add: is_ap_def optional_char_def is_dot_def is_m_def)

lemma parse_token_HH:
  "n < 100 \<Longrightarrow>
   parse_token \<lparr>a_HOUR = a, a_MINUTE = b, meridiem = me, empty = e, unusedTokens = u,
                totalParsedInputLength = l, rest = zeroFill2 n @ s\<rparr> Tok_HH =
   \<lparr>a_HOUR = Some n, a_MINUTE = b, meridiem = me, empty = False, unusedTokens = u,
    totalParsedInputLength = l + 2, rest = s\<rparr>"
  by (simp add: parse_token_def match1to2_zeroFill2 length_zeroFill2 toInt_zeroFill2
      del: match1to2.simps)

lemma parse_token_hh:
  "n < 100 \<Longrightarrow>
   parse_token \<lparr>a_HOUR = a, a_MINUTE = b, meridiem = me, empty = e, unusedTokens = u,
                totalParsedInputLength = l, rest = zeroFill2 n @ s\<rparr> Tok_hh =
   \<lparr>a_HOUR = Some n, a_MINUTE = b, meridiem = me, empty = False, unusedTokens = u,
    totalParsedInputLength = l + 2, rest = s\<rparr>"
  by (simp add: parse_token_def match1to2_zeroFill2 length_zeroFill2 toInt_zeroFill2
      del: match1to2.simps)

lemma parse_token_mm:
  "n < 100 \<Longrightarrow>
   parse_token \<lparr>a_HOUR = a, a_MINUTE = b, meridiem = me, empty = e, unusedTokens = u,
                totalParsedInputLength = l, rest = zeroFill2 n @ s\<rparr> Tok_mm =
   \<lparr>a_HOUR = a, a_MINUTE = Some n, meridiem = me, empty = False, unusedTokens = u,
    totalParsedInputLength = l + 2, rest = s\<rparr>"
  by (simp add: parse_token_def match1to2_zeroFill2 length_zeroFill2 toInt_zeroFill2
      del: match1to2.simps)

lemma parse_token_literal_hit:
  "parse_token \<lparr>a_HOUR = a, a_MINUTE = b, meridiem = me, empty = e, unusedTokens = u,
                totalParsedInputLength = l, rest = x # s\<rparr> (Tok_literal x) =
   \<lparr>a_HOUR = a, a_MINUTE = b, meridiem = me, empty = e, unusedTokens = u,
    totalParsedInputLength = l + 1, rest = s\<rparr>"
  by (simp add: parse_token_def)

lemma parse_token_literal_end:
  "parse_token \<lparr>a_HOUR = a, a_MINUTE = b, meridiem = me, empty = e, unusedTokens = u,
                totalParsedInputLength = l, rest = []\<rparr> (Tok_literal x) =
   \<lparr>a_HOUR = a, a_MINUTE = b, meridiem = me, empty = e, unusedTokens = u,
    totalParsedInputLength = l, rest = []\<rparr>"
  by (simp add: parse_token_def)

lemma parse_token_A_end:
  "parse_token \<lparr>a_HOUR = a, a_MINUTE = b, meridiem = me, empty = e, unusedTokens = u,
                totalParsedInputLength = l, rest = []\<rparr> Tok_A =
   \<lparr>a_HOUR = a, a_MINUTE = b, meridiem = me, empty = e, unusedTokens = u + 1,
    totalParsedInputLength = l, rest = []\<rparr>"
  by (simp add: parse_token_def)

lemma parse_token_A_hit:
  "x = ''AM'' \<or> x = ''PM'' \<Longrightarrow>
   parse_token \<lparr>a_HOUR = a, a_MINUTE = b, meridiem = me, empty = e, unusedTokens = u,
                totalParsedInputLength = l, rest = x\<rparr> Tok_A =
   \<lparr>a_HOUR = a, a_MINUTE = b, meridiem = Some x, empty = False, unusedTokens = u,
    totalParsedInputLength = l + 2, rest = []\<rparr>"
  by (auto simp add: parse_token_def matchMeridiem_AM matchMeridiem_PM simp del: matchMeridiem.simps)

lemma parse_HH_mm_24:
  assumes "h < 100" "m < 100"
  shows "configFromStringAndFormat format_HH_mm (zeroFill2 h @ '':'' @ zeroFill2 m) =
         \<lparr>isValid = (if 24 < h \<or> (h = 24 \<and> 0 < m) \<or> 59 < m then False else True),
          minutes = h * 60 + m, score = 0\<rparr>"
proof -
  have "foldl parse_token
          \<lparr>a_HOUR = None, a_MINUTE = None, meridiem = None, empty = True,
           unusedTokens = 0, totalParsedInputLength = 0,
           rest = zeroFill2 h @ '':'' @ zeroFill2 m\<rparr> format_HH_mm =
        \<lparr>a_HOUR = Some h, a_MINUTE = Some m, meridiem = None, empty = False,
         unusedTokens = 0, totalParsedInputLength = 5, rest = []\<rparr>"
    using assms parse_token_mm[of m _ _ _ _ _ _ "[]"]
    by (simp add: format_HH_mm_def parse_token_HH parse_token_literal_hit)
  then show ?thesis
    by (simp add: configFromStringAndFormat_def Let_def length_zeroFill2 meridiemFixWrap_def is_some_def)
qed

lemma parse_hh_mm_A_24:
  assumes "h < 100" "m < 100"
  shows "configFromStringAndFormat format_hh_mm_A (zeroFill2 h @ '':'' @ zeroFill2 m) =
         \<lparr>isValid = (if 24 < h \<or> (h = 24 \<and> 0 < m) \<or> 59 < m then False else True),
          minutes = h * 60 + m, score = 10\<rparr>"
proof -
  have "foldl parse_token
          \<lparr>a_HOUR = None, a_MINUTE = None, meridiem = None, empty = True,
           unusedTokens = 0, totalParsedInputLength = 0,
           rest = zeroFill2 h @ '':'' @ zeroFill2 m\<rparr> format_hh_mm_A =
        \<lparr>a_HOUR = Some h, a_MINUTE = Some m, meridiem = None, empty = False,
         unusedTokens = 1, totalParsedInputLength = 5, rest = []\<rparr>"
    using assms parse_token_mm[of m _ _ _ _ _ _ "[]"]
    by (simp add: format_hh_mm_A_def parse_token_hh parse_token_literal_hit
        parse_token_literal_end parse_token_A_end)
  then show ?thesis
    by (simp add: configFromStringAndFormat_def Let_def length_zeroFill2 meridiemFixWrap_def is_some_def)
qed

lemma parse_HH_mm_12:
  assumes "h < 100" "m < 100" "x = ''AM'' \<or> x = ''PM''"
  shows "configFromStringAndFormat format_HH_mm (zeroFill2 h @ '':'' @ zeroFill2 m @ '' '' @ x) =
         \<lparr>isValid = (if 24 < h \<or> (h = 24 \<and> 0 < m) \<or> 59 < m then False else True),
          minutes = h * 60 + m, score = 3\<rparr>"
proof -
  have l: "length x = 2" using assms(3) by auto
  have "foldl parse_token
          \<lparr>a_HOUR = None, a_MINUTE = None, meridiem = None, empty = True,
           unusedTokens = 0, totalParsedInputLength = 0,
           rest = zeroFill2 h @ '':'' @ zeroFill2 m @ '' '' @ x\<rparr> format_HH_mm =
        \<lparr>a_HOUR = Some h, a_MINUTE = Some m, meridiem = None, empty = False,
         unusedTokens = 0, totalParsedInputLength = 5, rest = '' '' @ x\<rparr>"
    using assms(1,2)
    by (simp add: format_HH_mm_def parse_token_HH parse_token_literal_hit parse_token_mm)
  then show ?thesis
    by (simp add: configFromStringAndFormat_def Let_def length_zeroFill2 meridiemFixWrap_def is_some_def l)
qed

lemma parse_hh_mm_A_12:
  assumes "h < 100" "m < 100" "x = ''AM'' \<or> x = ''PM''"
  shows "configFromStringAndFormat format_hh_mm_A (zeroFill2 h @ '':'' @ zeroFill2 m @ '' '' @ x) =
         \<lparr>isValid = (if 24 < (if x = ''PM'' then (if h < 12 then h + 12 else h) else (if h = 12 then 0 else h))
                        \<or> ((if x = ''PM'' then (if h < 12 then h + 12 else h) else (if h = 12 then 0 else h)) = 24 \<and> 0 < m) \<or> 59 < m then False else True),
          minutes = (if x = ''PM'' then (if h < 12 then h + 12 else h) else (if h = 12 then 0 else h)) * 60 + m,
          score = 0\<rparr>"
proof -
  have l: "length x = 2" using assms(3) by auto
  have pm: "isPM x = (x = ''PM'')" using assms(3) by (auto simp add: isPM_def)
  have "foldl parse_token
          \<lparr>a_HOUR = None, a_MINUTE = None, meridiem = None, empty = True,
           unusedTokens = 0, totalParsedInputLength = 0,
           rest = zeroFill2 h @ '':'' @ zeroFill2 m @ '' '' @ x\<rparr> format_hh_mm_A =
        \<lparr>a_HOUR = Some h, a_MINUTE = Some m, meridiem = Some x, empty = False,
         unusedTokens = 0, totalParsedInputLength = 8, rest = []\<rparr>"
    using assms
    by (simp add: format_hh_mm_A_def parse_token_hh parse_token_literal_hit parse_token_mm
        parse_token_A_hit)
  then show ?thesis
    by (simp add: configFromStringAndFormat_def Let_def length_zeroFill2 meridiemFixWrap_def is_some_def l pm)
qed

lemma hours_int: "k < 1440 \<Longrightarrow> hours (int k) = k div 60"
  by (simp add: hours_def nat_div_distrib)

lemma minute_int: "minute (int k) = k mod 60"
  by (simp add: minute_def nat_mod_distrib)

lemma array_24:
  assumes "h < 24" "m < 60"
  shows "configFromStringAndArray [format_HH_mm, format_hh_mm_A] (zeroFill2 h @ '':'' @ zeroFill2 m) =
         \<lparr>isValid = True, minutes = h * 60 + m, score = 0\<rparr>"
proof -
  have a: "configFromStringAndFormat format_HH_mm (zeroFill2 h @ '':'' @ zeroFill2 m) =
         \<lparr>isValid = True, minutes = h * 60 + m, score = 0\<rparr>"
    using assms parse_HH_mm_24[of h m] by simp
  have b: "configFromStringAndFormat format_hh_mm_A (zeroFill2 h @ '':'' @ zeroFill2 m) =
         \<lparr>isValid = True, minutes = h * 60 + m, score = 10\<rparr>"
    using assms parse_hh_mm_A_24[of h m] by simp
  show ?thesis
    by (simp only: configFromStringAndArray_def try_format_def foldl.simps a b Let_def) simp
qed

lemma array_12:
  assumes "h < 13" "m < 60" "x = ''AM'' \<or> x = ''PM''"
  shows "configFromStringAndArray [format_HH_mm, format_hh_mm_A]
           (zeroFill2 h @ '':'' @ zeroFill2 m @ '' '' @ x) =
         \<lparr>isValid = True,
          minutes = (if x = ''PM'' then (if h < 12 then h + 12 else h)
                     else (if h = 12 then 0 else h)) * 60 + m,
          score = 0\<rparr>"
proof -
  have a: "configFromStringAndFormat format_HH_mm (zeroFill2 h @ '':'' @ zeroFill2 m @ '' '' @ x) =
         \<lparr>isValid = True, minutes = h * 60 + m, score = 3\<rparr>"
    using assms parse_HH_mm_12[of h m x] by simp
  have b: "configFromStringAndFormat format_hh_mm_A (zeroFill2 h @ '':'' @ zeroFill2 m @ '' '' @ x) =
         \<lparr>isValid = True,
          minutes = (if x = ''PM'' then (if h < 12 then h + 12 else h)
                     else (if h = 12 then 0 else h)) * 60 + m,
          score = 0\<rparr>"
    using assms parse_hh_mm_A_12[of h m x] by auto
  show ?thesis
    by (simp only: configFromStringAndArray_def try_format_def foldl.simps a b Let_def) simp
qed

lemma text24_eq: "k < 1440 \<Longrightarrow> text24 k = zeroFill2 (k div 60) @ '':'' @ zeroFill2 (k mod 60)"
  by (simp add: text24_def utc_def hours_int minute_int)

lemma text12_eq:
  "k < 1440 \<Longrightarrow> text12 k =
     zeroFill2 (hour12 k) @ '':'' @
     zeroFill2 (k mod 60) @ '' '' @ (if 11 < k div 60 then ''PM'' else ''AM'')"
  by (simp add: text12_def utc_def hours_int minute_int hour12_def)

lemma configFromStringAndArray_text24:
  assumes "k < 1440"
  shows "configFromStringAndArray [format_HH_mm, format_hh_mm_A] (text24 k) =
         \<lparr>isValid = True, minutes = k, score = 0\<rparr>"
proof -
  have "k div 60 < 24" "k mod 60 < 60" using assms by auto
  then show ?thesis using assms array_24[of "k div 60" "k mod 60"]
    by (simp add: text24_eq)
qed

lemma configFromStringAndArray_text12:
  assumes "k < 1440"
  shows "configFromStringAndArray [format_HH_mm, format_hh_mm_A] (text12 k) =
         \<lparr>isValid = True, minutes = k, score = 0\<rparr>"
proof -
  define h where "h = k div 60"
  define x where "x = (if 11 < h then ''PM'' else ''AM'')"
  have h: "h < 24" "k mod 60 < 60" using assms by (auto simp add: h_def)
  have h12: "hour12 k < 13" by (simp add: hour12_def) arith
  have x: "x = ''AM'' \<or> x = ''PM''" by (simp add: x_def)
  have "(if x = ''PM'' then (if hour12 k < 12 then hour12 k + 12 else hour12 k)
                     else (if hour12 k = 12 then 0 else hour12 k)) = h"
    using h(1) unfolding x_def hour12_def h_def[symmetric] by (simp split: if_splits) arith
  moreover have "h * 60 + k mod 60 = k" by (simp add: h_def)
  ultimately show ?thesis
    using array_12[OF h12 h(2) x] assms by (simp add: text12_eq x_def h_def)
qed

subsection \<open>The cases of the handler\<close>

lemma outcomes_distinct:
  "DoctorNotFound \<noteq> OutOfWorkingHours x y" "DoctorNotFound \<noteq> SlotConflict"
  "DoctorNotFound \<noteq> Available" "OutOfWorkingHours x y \<noteq> SlotConflict"
  "OutOfWorkingHours x y \<noteq> Available" "SlotConflict \<noteq> Available"
  "OutOfWorkingHours x y \<noteq> DoctorNotFound" "SlotConflict \<noteq> DoctorNotFound"
  "Available \<noteq> DoctorNotFound" "SlotConflict \<noteq> OutOfWorkingHours x y"
  "Available \<noteq> OutOfWorkingHours x y" "Available \<noteq> SlotConflict"
  by (simp_all add: DoctorNotFound_def OutOfWorkingHours_def SlotConflict_def Available_def
      working_hours_message_def)

lemma find_appointments_window:
  "find_appointments (body_doctorId req) (body_date req) (windowStart z c req)
     (windowEnd z c req) as =
   filter (\<lambda>a. in_window z c req a \<and> status a \<noteq> ''rejected'') as"
  by (simp add: find_appointments_def in_window_def)

lemma checkBookingAvailability_None:
  "findOne (body_doctorId req) (Doctor db) = None \<Longrightarrow>
   checkBookingAvailability z c db req = DoctorNotFound"
  by (simp add: checkBookingAvailability_def DoctorNotFound_def)

lemma checkBookingAvailability_Some:
  "findOne (body_doctorId req) (Doctor db) = Some doc \<Longrightarrow>
   checkBookingAvailability z c db req =
     (if isBefore (requestedTime z c req) (doctorFromTime z c doc) \<or>
         isAfter (requestedTime z c req) (doctorToTime z c doc)
      then OutOfWorkingHours (format_hhmmA z (doctorFromTime z c doc))
             (format_hhmmA z (doctorToTime z c doc))
      else if filter (\<lambda>a. in_window z c req a \<and> status a \<noteq> ''rejected'')
                (Appointment db) = []
           then Available else SlotConflict)"
  unfolding find_appointments_window[symmetric]
  by (simp add: checkBookingAvailability_def Let_def OutOfWorkingHours_def SlotConflict_def
      Available_def doctorFromTime_def doctorToTime_def requestedTime_def windowStart_def
      windowEnd_def)

lemma string_le_antisym: "string_le a b \<Longrightarrow> string_le b a \<Longrightarrow> a = b"
proof (induction a arbitrary: b)
  case Nil
  then show ?case by (cases b) auto
next
  case (Cons x xs)
  then show ?case by (cases b) (auto split: if_splits)
qed

lemma string_le_refl: "string_le a a"
  by (induction a) auto

lemma string_window_point: "(string_ge s w \<and> string_le s w) = (s = w)"
  using string_le_antisym[of s w] string_le_refl[of s] by (auto simp add: string_ge_def)

subsection \<open>Local times and their display\<close>


lemma hours_mod: "l mod 1440 = l' mod 1440 \<Longrightarrow> hours l = hours l'"
  by (simp add: hours_def)

lemma minute_mod: "l mod 1440 = l' mod 1440 \<Longrightarrow> minute l = minute l'"
proof -
  assume a: "l mod 1440 = l' mod 1440"
  have "l mod 60 = (l mod 1440) mod 60" "l' mod 60 = (l' mod 1440) mod 60"
    by (simp_all add: mod_mod_cancel)
  then show ?thesis using a by (simp add: minute_def)
qed

lemma format_HHmm_local:
  "instantToLocal z t mod 1440 = instantToLocal z' t' mod 1440 \<Longrightarrow>
   format_HHmm z (Valid t) = format_HHmm z' (Valid t')"
  by (simp add: hours_mod[of "instantToLocal z t" "instantToLocal z' t'"]
      minute_mod[of "instantToLocal z t" "instantToLocal z' t'"])

lemma format_hhmmA_local:
  "instantToLocal z t mod 1440 = instantToLocal z' t' mod 1440 \<Longrightarrow>
   format_hhmmA z (Valid t) = format_hhmmA z' (Valid t')"
  by (simp add: hours_mod[of "instantToLocal z t" "instantToLocal z' t'"]
      minute_mod[of "instantToLocal z t" "instantToLocal z' t'"])

lemma format_HHmm_text24:
  assumes "instantToLocal z t mod 1440 = int k"
  shows "format_HHmm z (Valid t) = text24 k"
proof -
  have "k < 1440" using assms pos_mod_bound[of 1440 "instantToLocal z t"] by simp
  then have "instantToLocal z t mod 1440 = instantToLocal utc (int k) mod 1440"
    using assms by (simp add: utc_def)
  then show ?thesis unfolding text24_def by (rule format_HHmm_local)
qed







subsection \<open>A zone with a fixed offset and a clock that shows one day\<close>

lemma to_moment_fixed_offset:
  assumes "\<And>d m. localToInstant z d m = d * 1440 + int m - off"
  shows "to_moment z d p = shift (d * 1440 - off) (to_moment utc 0 p)"
  by (simp add: to_moment_def assms utc_def)

lemma local_shift:
  assumes "\<And>t. instantToLocal z t = t + off"
  shows "instantToLocal z (d * 1440 - off + t) mod 1440 = instantToLocal utc t mod 1440"
proof -
  have "instantToLocal z (d * 1440 - off + t) = t + 1440 * d" by (simp add: assms)
  then show ?thesis by (simp add: utc_def)
qed

lemma format_HHmm_shift:
  assumes "\<And>t. instantToLocal z t = t + off"
  shows "format_HHmm z (shift (d * 1440 - off) m) = format_HHmm utc m"
proof (cases m)
  case Invalid
  then show ?thesis by simp
next
  case (Valid t)
  show ?thesis unfolding Valid shift.simps
    by (rule format_HHmm_local) (rule local_shift[OF assms])
qed

lemma format_hhmmA_shift:
  assumes "\<And>t. instantToLocal z t = t + off"
  shows "format_hhmmA z (shift (d * 1440 - off) m) = format_hhmmA utc m"
proof (cases m)
  case Invalid
  then show ?thesis by simp
next
  case (Valid t)
  show ?thesis unfolding Valid shift.simps
    by (rule format_hhmmA_local) (rule local_shift[OF assms])
qed

lemma isBefore_shift: "isBefore (shift k a) (shift k b) = isBefore a b"
  by (cases a; cases b) simp_all

lemma isAfter_shift: "isAfter (shift k a) (shift k b) = isAfter a b"
  by (cases a; cases b) simp_all

lemma subtract_shift: "subtract_minutes (shift k a) n = shift k (subtract_minutes a n)"
  by (cases a) simp_all

lemma add_shift: "add_minutes (shift k a) n = shift k (add_minutes a n)"
  by (cases a) simp_all

lemma checkBookingAvailability_one_day:
  assumes fo: "\<And>d m. localToInstant z d m = d * 1440 + int m - off"
    and lo: "\<And>t. instantToLocal z t = t + off"
    and c: "today_fromTime c = today_requested c" "today_toTime c = today_requested c"
  shows "checkBookingAvailability z c db req = checkBookingAvailability utc (on_day 0) db req"
proof (cases "findOne (body_doctorId req) (Doctor db)")
  case None
  then show ?thesis by (simp add: checkBookingAvailability_None)
next
  case (Some doc)
  define k where "k = today_requested c * 1440 - off"
  have df: "doctorFromTime z c doc = shift k (doctorFromTime utc (on_day 0) doc)"
    unfolding doctorFromTime_def moment_format_def k_def c(1)
    by (simp add: to_moment_fixed_offset[OF fo] on_day_def)
  have dt: "doctorToTime z c doc = shift k (doctorToTime utc (on_day 0) doc)"
    unfolding doctorToTime_def moment_format_def k_def c(2)
    by (simp add: to_moment_fixed_offset[OF fo] on_day_def)
  have rt: "requestedTime z c req = shift k (requestedTime utc (on_day 0) req)"
    unfolding requestedTime_def moment_formats_def k_def
    by (simp add: to_moment_fixed_offset[OF fo] on_day_def)
  have b: "isBefore (requestedTime z c req) (doctorFromTime z c doc) =
           isBefore (requestedTime utc (on_day 0) req) (doctorFromTime utc (on_day 0) doc)"
    unfolding rt df by (rule isBefore_shift)
  have a: "isAfter (requestedTime z c req) (doctorToTime z c doc) =
           isAfter (requestedTime utc (on_day 0) req) (doctorToTime utc (on_day 0) doc)"
    unfolding rt dt by (rule isAfter_shift)
  have f: "format_hhmmA z (doctorFromTime z c doc) =
           format_hhmmA utc (doctorFromTime utc (on_day 0) doc)"
    unfolding df k_def by (rule format_hhmmA_shift[OF lo])
  have t: "format_hhmmA z (doctorToTime z c doc) =
           format_hhmmA utc (doctorToTime utc (on_day 0) doc)"
    unfolding dt k_def by (rule format_hhmmA_shift[OF lo])
  have ws: "windowStart z c req = windowStart utc (on_day 0) req"
    unfolding windowStart_def rt subtract_shift k_def by (rule format_HHmm_shift[OF lo])
  have we: "windowEnd z c req = windowEnd utc (on_day 0) req"
    unfolding windowEnd_def rt add_shift k_def by (rule format_HHmm_shift[OF lo])
  have w: "(\<lambda>a. in_window z c req a \<and> status a \<noteq> ''rejected'') =
           (\<lambda>a. in_window utc (on_day 0) req a \<and> status a \<noteq> ''rejected'')"
    by (simp add: in_window_def ws we)
  show ?thesis
    by (simp only: checkBookingAvailability_Some[OF Some] a b f t w)
qed

subsection \<open>Unparseable requests and windows across midnight\<close>

lemma requestedTime_Invalid:
  assumes "\<not> isValid (configFromStringAndFormat format_HH_mm (body_time req))"
    and "\<not> isValid (configFromStringAndFormat format_hh_mm_A (body_time req))"
  shows "requestedTime z c req = Invalid"
  using assms
  by (simp add: requestedTime_def moment_formats_def configFromStringAndArray_def
      try_format_def to_moment_def Let_def)

lemma in_window_Invalid:
  "requestedTime z c req = Invalid \<Longrightarrow>
   in_window z c req a =
     (doctorId a = body_doctorId req \<and> date a = body_date req \<and> time a = invalidDate)"
  by (simp add: in_window_def windowStart_def windowEnd_def string_window_point)

lemma mod_shift_neg: "- 1440 \<le> (x::int) \<Longrightarrow> x < 0 \<Longrightarrow> x mod 1440 = x + 1440"
proof -
  assume a: "- 1440 \<le> x" "x < 0"
  have "x mod 1440 = (x + 1440) mod 1440" by simp
  also have "\<dots> = x + 1440" using a by (intro mod_pos_pos_trivial) auto
  finally show ?thesis .
qed

lemma mod_shift_pos: "1440 \<le> (x::int) \<Longrightarrow> x < 2880 \<Longrightarrow> x mod 1440 = x - 1440"
proof -
  assume a: "1440 \<le> x" "x < 2880"
  have "x mod 1440 = (x - 1440) mod 1440" by simp
  also have "\<dots> = x - 1440" using a by (intro mod_pos_pos_trivial) auto
  finally show ?thesis .
qed

lemma window_wraps:
  assumes "(l::int) mod 1440 < 30 \<or> 1425 \<le> l mod 1440"
  shows "hours (l - 30) = 23 \<and> hours (l + 15) = 0"
proof -
  define k where "k = l mod 1440"
  have k: "0 \<le> k" "k < 1440" by (simp_all add: k_def)
  have s: "(l - 30) mod 1440 = (k - 30) mod 1440" unfolding k_def by (simp add: mod_diff_left_eq)
  have e: "(l + 15) mod 1440 = (k + 15) mod 1440" unfolding k_def by (simp add: mod_add_left_eq)
  from assms have "k < 30 \<or> 1425 \<le> k" by (simp add: k_def)
  then show ?thesis
  proof
    assume a: "k < 30"
    have "(k - 30) mod 1440 = k + 1410" using k a mod_shift_neg[of "k - 30"] by simp
    moreover have "(k + 15) mod 1440 = k + 15" using k a by simp
    ultimately show ?thesis using k a by (simp add: hours_def s e)
  next
    assume a: "1425 \<le> k"
    have "(k - 30) mod 1440 = k - 30" using k a by simp
    moreover have "(k + 15) mod 1440 = k - 1425" using k a mod_shift_pos[of "k + 15"] by simp
    ultimately show ?thesis using k a by (simp add: hours_def s e)
  qed
qed

lemma zeroFill2_23: "zeroFill2 23 = ''23''"
  by (simp add: zeroFill2_def digit_char_eq_iff char_code_def)

lemma zeroFill2_0: "zeroFill2 0 = ''00''"
  by (simp add: zeroFill2_def digit_char_eq_iff char_code_def)

lemma no_string_between:
  "char_code hi < char_code lo \<Longrightarrow> \<not> (string_ge s (lo # xs) \<and> string_le s (hi # ys))"
  by (cases s) (auto simp add: string_ge_def split: if_splits)

subsection \<open>Well-formed times in the request and in the doctor record\<close>

lemma hour12_lt: "hour12 k < 13"
  by (simp add: hour12_def) arith

lemma configFromStringAndFormat_HH_mm_text12:
  assumes "k < 1440"
  shows "configFromStringAndFormat format_HH_mm (text12 k) =
         \<lparr>isValid = True, minutes = hour12 k * 60 + k mod 60, score = 3\<rparr>"
proof -
  have h: "hour12 k < 100" using hour12_lt[of k] by simp
  have m: "k mod 60 < 100" by (rule less_trans[of _ 60]) simp_all
  have x: "(if 11 < k div 60 then ''PM'' else ''AM'') = ''AM'' \<or>
           (if 11 < k div 60 then ''PM'' else ''AM'') = ''PM''" by simp
  have v: "\<not> (24 < hour12 k \<or> (hour12 k = 24 \<and> 0 < k mod 60) \<or> 59 < k mod 60)"
    using hour12_lt[of k] by simp
  show ?thesis
    unfolding text12_eq[OF assms] parse_HH_mm_12[OF h m x] using v by simp
qed

lemma requestedTime_text24:
  "k < 1440 \<Longrightarrow>
   requestedTime z c (req\<lparr>body_time := text24 k\<rparr>) =
     Valid (localToInstant z (today_requested c) k)"
  by (simp add: requestedTime_def moment_formats_def to_moment_def
      configFromStringAndArray_text24)

lemma requestedTime_text12:
  "k < 1440 \<Longrightarrow>
   requestedTime z c (req\<lparr>body_time := text12 k\<rparr>) =
     Valid (localToInstant z (today_requested c) k)"
  by (simp add: requestedTime_def moment_formats_def to_moment_def
      configFromStringAndArray_text12)

lemma checkBookingAvailability_requestedTime:
  assumes "requestedTime z c (req\<lparr>body_time := x\<rparr>) = requestedTime z c (req\<lparr>body_time := y\<rparr>)"
  shows "checkBookingAvailability z c db (req\<lparr>body_time := x\<rparr>) =
         checkBookingAvailability z c db (req\<lparr>body_time := y\<rparr>)"
proof (cases "findOne (body_doctorId req) (Doctor db)")
  case None
  then show ?thesis by (simp add: checkBookingAvailability_None)
next
  case (Some doc)
  have w: "in_window z c (req\<lparr>body_time := x\<rparr>) = in_window z c (req\<lparr>body_time := y\<rparr>)"
    by (rule ext) (simp add: in_window_def windowStart_def windowEnd_def assms)
  have s: "findOne (body_doctorId (req\<lparr>body_time := u\<rparr>)) (Doctor db) = Some doc" for u
    using Some by simp
  show ?thesis
    by (simp add: checkBookingAvailability_Some[OF s] assms w)
qed

subsection \<open>The order of time strings and windows within one day\<close>

lemma lex10: "r1 < 10 \<Longrightarrow> r2 < 10 \<Longrightarrow>
   (q1 < q2 \<or> q1 = q2 \<and> r1 < r2) = (10 * q1 + r1 < 10 * q2 + (r2::nat))"
  by auto

lemma lex60: "r1 < 60 \<Longrightarrow> r2 < 60 \<Longrightarrow>
   (q1 < q2 \<or> q1 = q2 \<and> r1 \<le> r2) = (60 * q1 + r1 \<le> 60 * q2 + (r2::nat))"
  by auto

lemma digits_less:
  "(n div 10 < m div 10 \<or> n div 10 = m div 10 \<and> n mod 10 < m mod 10) = (n < (m::nat))"
proof -
  have "(n div 10 < m div 10 \<or> n div 10 = m div 10 \<and> n mod 10 < m mod 10) = 
        (10 * (n div 10) + n mod 10 < 10 * (m div 10) + m mod 10)"
    by (rule lex10) simp_all
  then show ?thesis by simp
qed

lemma hour_minute_le:
  "(n div 60 < m div 60 \<or> n div 60 = m div 60 \<and> n mod 60 \<le> m mod 60) = (n \<le> (m::nat))"
proof -
  have "(n div 60 < m div 60 \<or> n div 60 = m div 60 \<and> n mod 60 \<le> m mod 60) = 
        (60 * (n div 60) + n mod 60 \<le> 60 * (m div 60) + m mod 60)"
    by (rule lex60) simp_all
  then show ?thesis by simp
qed

lemma string_le_zeroFill2:
  assumes "n < 100" "m < 100"
  shows "string_le (zeroFill2 n @ s) (zeroFill2 m @ t) = (n < m \<or> (n = m \<and> string_le s t))"
proof -
  have d: "n div 10 < 10" "n mod 10 < 10" "m div 10 < 10" "m mod 10 < 10" using assms by auto
  have e: "(n div 10 = m div 10 \<and> n mod 10 = m mod 10) = (n = m)"
    by (metis div_mult_mod_eq)
  have "string_le (zeroFill2 n @ s) (zeroFill2 m @ t) =
        ((n div 10 < m div 10 \<or> n div 10 = m div 10 \<and> n mod 10 < m mod 10) \<or>
         ((n div 10 = m div 10 \<and> n mod 10 = m mod 10) \<and> string_le s t))"
    using d by (auto simp add: zeroFill2_def char_code_digit_char digit_char_eq)
  then show ?thesis unfolding e digits_less .
qed

lemma string_le_text24:
  assumes "a < 1440" "b < 1440"
  shows "string_le (text24 a) (text24 b) = (a \<le> b)"
proof -
  have h: "a div 60 < 100" "b div 60 < 100" "a mod 60 < 100" "b mod 60 < 100"
    using assms by (auto intro: less_trans[of _ 60])
  have m: "string_le (zeroFill2 (a mod 60)) (zeroFill2 (b mod 60)) = (a mod 60 \<le> b mod 60)"
    using string_le_zeroFill2[OF h(3,4), of "[]" "[]"] by auto
  have "string_le (text24 a) (text24 b) =
        (a div 60 < b div 60 \<or> (a div 60 = b div 60 \<and> a mod 60 \<le> b mod 60))"
    by (simp add: text24_eq assms string_le_zeroFill2 h m)
  then show ?thesis unfolding hour_minute_le .
qed

lemma window_within_day:
  assumes "requestedTime z c req = Valid r"
    and "instantToLocal z r mod 1440 = int k"
    and "instantToLocal z (r - 30) = instantToLocal z r - 30"
    and "instantToLocal z (r + 15) = instantToLocal z r + 15"
    and "30 \<le> k" and "k + 15 < 1440"
  shows "windowStart z c req = text24 (k - 30) \<and> windowEnd z c req = text24 (k + 15)"
proof -
  define l where "l = instantToLocal z r"
  have "(l - 30) mod 1440 = (l mod 1440 - 30) mod 1440" by (simp add: mod_diff_left_eq)
  also have "\<dots> = int (k - 30)" using assms(2,5,6) by (simp add: l_def)
  finally have s: "instantToLocal z (r - 30) mod 1440 = int (k - 30)"
    by (simp add: assms(3) l_def)
  have "(l + 15) mod 1440 = (l mod 1440 + 15) mod 1440" by (simp add: mod_add_left_eq)
  also have "\<dots> = int (k + 15)" using assms(2,6) by (simp add: l_def)
  finally have e: "instantToLocal z (r + 15) mod 1440 = int (k + 15)"
    by (simp add: assms(4) l_def)
  show ?thesis
    by (simp add: windowStart_def windowEnd_def assms(1) format_HHmm_text24[OF s]
        format_HHmm_text24[OF e] del: format_HHmm.simps)
qed

lemma in_window_within_day:
  assumes "requestedTime z c req = Valid r"
    and "instantToLocal z r mod 1440 = int k"
    and "instantToLocal z (r - 30) = instantToLocal z r - 30"
    and "instantToLocal z (r + 15) = instantToLocal z r + 15"
    and "30 \<le> k" and "k + 15 < 1440" and "j < 1440"
    and "doctorId a = body_doctorId req" and "date a = body_date req"
    and "time a = text24 j"
  shows "in_window z c req a = (k - 30 \<le> j \<and> j \<le> k + 15)"
proof -
  have w: "windowStart z c req = text24 (k - 30)" "windowEnd z c req = text24 (k + 15)"
    using window_within_day[OF assms(1-6)] by simp_all
  have b: "k - 30 < 1440" using assms(6) by simp
  show ?thesis
    by (simp add: in_window_def w assms(8,9,10) string_ge_def
        string_le_text24[OF b assms(7)] string_le_text24[OF assms(7,6)])
qed

text \<open>
  Where the window of the request stays within one local day and the zone does not change
  its offset inside the window, the query of the handler selects exactly the appointments
  from 30 minutes before to 15 minutes after the requested time, both ends included, that
  are not rejected.
\<close>

lemma conflict_window_inclusive_within_day:
  assumes "findOne (body_doctorId req) (Doctor db) = Some doc"
    and "requestedTime z c req = Valid r"
    and "instantToLocal z r mod 1440 = int k"
    and "instantToLocal z (r - 30) = instantToLocal z r - 30"
    and "instantToLocal z (r + 15) = instantToLocal z r + 15"
    and "30 \<le> k" and "k + 15 < 1440"
    and "\<not> isBefore (requestedTime z c req) (doctorFromTime z c doc)"
    and "\<not> isAfter (requestedTime z c req) (doctorToTime z c doc)"
  shows "((\<exists>a \<in> set (Appointment db).
             doctorId a = body_doctorId req \<and> date a = body_date req \<and>
             status a \<noteq> ''rejected'' \<and>
             (\<exists>j. k - 30 \<le> j \<and> j \<le> k + 15 \<and> time a = text24 j)) \<longrightarrow>
          checkBookingAvailability z c db req = SlotConflict) \<and>
         ((\<forall>a \<in> set (Appointment db).
             doctorId a = body_doctorId req \<and> date a = body_date req \<and>
             status a \<noteq> ''rejected'' \<longrightarrow>
             (\<exists>j < 1440. time a = text24 j \<and> (j < k - 30 \<or> k + 15 < j))) \<longrightarrow>
          checkBookingAvailability z c db req = Available)"
proof -
  note w = assms(2-7)
  have c: "checkBookingAvailability z c db req =
           (if filter (\<lambda>a. in_window z c req a \<and> status a \<noteq> ''rejected'')
                (Appointment db) = []
            then Available else SlotConflict)"
    using assms(8,9) by (simp add: checkBookingAvailability_Some[OF assms(1)])
  have 1: "checkBookingAvailability z c db req = SlotConflict"
    if "a \<in> set (Appointment db)" "doctorId a = body_doctorId req" "date a = body_date req"
      "status a \<noteq> ''rejected''" "k - 30 \<le> j" "j \<le> k + 15" "time a = text24 j" for a j
  proof -
    have "j < 1440" using that(6) assms(7) by simp
    from in_window_within_day[OF w this that(2,3,7)] that(5,6)
    have "in_window z c req a" by simp
    then have "filter (\<lambda>a. in_window z c req a \<and> status a \<noteq> ''rejected'')
                (Appointment db) \<noteq> []"
      using that(1,4) by (auto simp add: filter_empty_conv)
    then show ?thesis by (simp add: c)
  qed
  have 2: "checkBookingAvailability z c db req = Available"
    if h: "\<forall>a \<in> set (Appointment db).
             doctorId a = body_doctorId req \<and> date a = body_date req \<and>
             status a \<noteq> ''rejected'' \<longrightarrow>
             (\<exists>j < 1440. time a = text24 j \<and> (j < k - 30 \<or> k + 15 < j))"
  proof -
    have "\<not> (in_window z c req a \<and> status a \<noteq> ''rejected'')"
      if a: "a \<in> set (Appointment db)" for a
    proof
      assume i: "in_window z c req a \<and> status a \<noteq> ''rejected''"
      then have d: "doctorId a = body_doctorId req" "date a = body_date req"
        by (simp_all add: in_window_def)
      with h a i obtain j where j: "j < 1440" "time a = text24 j" "j < k - 30 \<or> k + 15 < j"
        by blast
      from in_window_within_day[OF w j(1) d j(2)] i j(3) show False by auto
    qed
    then have "filter (\<lambda>a. in_window z c req a \<and> status a \<noteq> ''rejected'')
                (Appointment db) = []"
      by (auto simp add: filter_empty_conv)
    then show ?thesis by (simp add: c)
  qed
  show ?thesis using 1 2 by blast
qed

subsection \<open>The concrete inputs\<close>

lemma findOne_clinic_any:
  "userId d = ''d1'' \<Longrightarrow> findOne (body_doctorId (request_at x)) (Doctor (clinic d as)) = Some d"
  by (simp add: findOne_def clinic_def request_at_def)

lemma findOne_clinic:
  "findOne (body_doctorId (request_at x)) (Doctor (clinic doctor_9_to_5 as)) = Some doctor_9_to_5"
  by (simp add: findOne_clinic_any doctor_9_to_5_def)

lemma doctorFromTime_9: "doctorFromTime utc (on_day 0) doctor_9_to_5 = Valid 540"
  by code_simp

lemma doctorToTime_5: "doctorToTime utc (on_day 0) doctor_9_to_5 = Valid 1020"
  by code_simp

section \<open>The claims\<close>

text \<open>
  Claim C1. An appointment exactly 30 minutes before or exactly 15 minutes after the
  requested time is to give the answer SlotConflict, for every requested time within the
  working hours. The handler does not: a doctor works from 00:00 to 23:59, an appointment
  is pending at 23:20, and 23:50 is requested. The requested time parses to minute 1430 of
  the day, the appointment is exactly 30 minutes earlier, the bounds of the query are
  \<^verbatim>\<open>23:20\<close> and \<^verbatim>\<open>00:05\<close>, and the answer is that the appointment is
  available. Where the window stays within the day the bounds are inclusive, as lemma
  \<open>conflict_window_inclusive_within_day\<close> shows.
\<close>

theorem window_end_after_midnight_misses_conflict:
  "requestedTime utc (on_day 0) (request_at ''23:50'') = Valid 1430 \<and>
   time (booked ''23:20'' ''pending'') = format_HHmm utc (Valid (1430 - 30)) \<and>
   windowStart utc (on_day 0) (request_at ''23:50'') = ''23:20'' \<and>
   windowEnd utc (on_day 0) (request_at ''23:50'') = ''00:05'' \<and>
   checkBookingAvailability utc (on_day 0) (clinic doctor_all_day [booked ''23:20'' ''pending''])
     (request_at ''23:50'') = Inr (Json True ''Appointment available'')"
  by code_simp

text \<open>
  Claim C2. Let the doctor be found, let the doctor's two times parse to \<open>f\<close> and \<open>t\<close>
  with \<open>f \<le> t\<close>, and let the requested time parse to \<open>r\<close>. A request at exactly \<open>f\<close>
  or exactly \<open>t\<close> is not answered with the working-hours error (the answer is one of the
  two answers of the appointment query), and the working-hours error is the answer exactly
  when \<open>r\<close> is strictly before \<open>f\<close> or strictly after \<open>t\<close>.
\<close>

theorem working_hours_boundaries_accepted:
  assumes "findOne (body_doctorId req) (Doctor db) = Some doc"
    and "doctorFromTime z c doc = Valid f"
    and "doctorToTime z c doc = Valid t"
    and "f \<le> t"
    and "requestedTime z c req = Valid r"
  shows "(r = f \<or> r = t \<longrightarrow>
           checkBookingAvailability z c db req = SlotConflict \<or>
           checkBookingAvailability z c db req = Available) \<and>
         ((\<exists>x y. checkBookingAvailability z c db req = OutOfWorkingHours x y) =
          (r < f \<or> t < r))"
  using assms
  by (auto simp add: checkBookingAvailability_Some outcomes_distinct)

text \<open>
  With working hours 09:00 to 17:00 and no appointments, requests at 09:00 and at 17:00
  are available.
\<close>

theorem working_hours_boundaries_accepted_witness:
  "checkBookingAvailability utc (on_day 0) (clinic doctor_9_to_5 []) (request_at ''09:00'') =
     Available \<and>
   checkBookingAvailability utc (on_day 0) (clinic doctor_9_to_5 []) (request_at ''17:00'') =
     Available"
proof -
  have r1: "requestedTime utc (on_day 0) (request_at ''09:00'') = Valid 540" by code_simp
  have r2: "requestedTime utc (on_day 0) (request_at ''17:00'') = Valid 1020" by code_simp
  have le: "(540::int) \<le> 1020" by simp
  have n1: "checkBookingAvailability utc (on_day 0) (clinic doctor_9_to_5 [])
              (request_at ''09:00'') \<noteq> SlotConflict"
    by code_simp
  have n2: "checkBookingAvailability utc (on_day 0) (clinic doctor_9_to_5 [])
              (request_at ''17:00'') \<noteq> SlotConflict"
    by code_simp
  show ?thesis
    using working_hours_boundaries_accepted
            [OF findOne_clinic [of _ "[]"] doctorFromTime_9 doctorToTime_5 le r1]
      working_hours_boundaries_accepted
            [OF findOne_clinic [of _ "[]"] doctorFromTime_9 doctorToTime_5 le r2]
      n1 n2
    by simp
qed



text \<open>
  Claim C4, as stated, fails: the handler has no answer for a time in a wrong format. The
  text \<^verbatim>\<open>soon\<close> is valid under neither format, and the answer is that the appointment
  is available.
\<close>

theorem unparseable_time_counterexample:
  "\<not> isValid (configFromStringAndFormat format_HH_mm ''soon'') \<and>
   \<not> isValid (configFromStringAndFormat format_hh_mm_A ''soon'') \<and>
   checkBookingAvailability utc (on_day 0) (clinic doctor_9_to_5 []) (request_at ''soon'') =
     Inr (Json True ''Appointment available'')"
  by code_simp

text \<open>
  Claim C4, amended. When the requested time is valid under neither format and the doctor
  is found, the requested moment is invalid, both bounds of the query are the text
  \<^verbatim>\<open>Invalid date\<close>, the working-hours error is not raised, and the answer is Available
  unless an appointment of that doctor and date that is not rejected has exactly the text
  \<^verbatim>\<open>Invalid date\<close> as its time, in which case it is SlotConflict.
\<close>

theorem unparseable_time_is_not_an_error:
  assumes "findOne (body_doctorId req) (Doctor db) = Some doc"
    and "\<not> isValid (configFromStringAndFormat format_HH_mm (body_time req))"
    and "\<not> isValid (configFromStringAndFormat format_hh_mm_A (body_time req))"
  shows "requestedTime z c req = Invalid \<and>
         windowStart z c req = ''Invalid date'' \<and>
         windowEnd z c req = ''Invalid date'' \<and>
         checkBookingAvailability z c db req =
           (if filter (\<lambda>a. doctorId a = body_doctorId req \<and> date a = body_date req \<and>
                           time a = ''Invalid date'' \<and> status a \<noteq> ''rejected'')
                 (Appointment db) = []
            then Available else SlotConflict)"
proof -
  have i: "requestedTime z c req = Invalid"
    using assms(2,3) by (rule requestedTime_Invalid)
  have w: "(\<lambda>a. in_window z c req a \<and> status a \<noteq> ''rejected'') =
           (\<lambda>a. doctorId a = body_doctorId req \<and> date a = body_date req \<and>
                           time a = ''Invalid date'' \<and> status a \<noteq> ''rejected'')"
    by (auto simp add: in_window_Invalid[OF i] invalidDate_def)
  show ?thesis
    using i by (simp add: checkBookingAvailability_Some[OF assms(1)] w windowStart_def
        windowEnd_def invalidDate_def)
qed

text \<open>
  The request \<^verbatim>\<open>soon\<close> is available even though the doctor has an approved
  appointment that day.
\<close>

theorem unparseable_time_is_not_an_error_witness:
  "checkBookingAvailability utc (on_day 0) (clinic doctor_9_to_5 [booked ''10:00'' ''approved''])
     (request_at ''soon'') = Available"
proof -
  have a: "\<not> isValid (configFromStringAndFormat format_HH_mm (body_time (request_at ''soon'')))"
    by code_simp
  have b: "\<not> isValid (configFromStringAndFormat format_hh_mm_A (body_time (request_at ''soon'')))"
    by code_simp
  show ?thesis
    using unparseable_time_is_not_an_error
            [OF findOne_clinic [of _ "[booked ''10:00'' ''approved'']"] a b,
             where z = utc and c = "on_day 0"]
    by (simp add: clinic_def booked_def request_at_def)
qed

text \<open>
  Claim C5. For every time of day, the request written in the 12-hour form and the request
  written in the 24-hour form get the same answer, for every clinic, zone and clock; in
  particular \<^verbatim>\<open>02:30 PM\<close> and \<^verbatim>\<open>14:30\<close> do.
\<close>

theorem twelve_and_twenty_four_hour_forms_agree:
  "(k < 1440 \<longrightarrow>
      checkBookingAvailability z c db (req\<lparr>body_time := text12 k\<rparr>) =
      checkBookingAvailability z c db (req\<lparr>body_time := text24 k\<rparr>)) \<and>
   checkBookingAvailability z c db (req\<lparr>body_time := ''02:30 PM''\<rparr>) =
   checkBookingAvailability z c db (req\<lparr>body_time := ''14:30''\<rparr>)"
proof -
  have g: "k < 1440 \<Longrightarrow>
      checkBookingAvailability z c db (req\<lparr>body_time := text12 k\<rparr>) =
      checkBookingAvailability z c db (req\<lparr>body_time := text24 k\<rparr>)" for k
    by (rule checkBookingAvailability_requestedTime)
       (simp add: requestedTime_text12 requestedTime_text24)
  have a: "text12 870 = ''02:30 PM''" by code_simp
  have b: "text24 870 = ''14:30''" by code_simp
  have "checkBookingAvailability z c db (req\<lparr>body_time := text12 870\<rparr>) =
        checkBookingAvailability z c db (req\<lparr>body_time := text24 870\<rparr>)"
    by (rule g) simp
  then show ?thesis using g[of k] unfolding a b by simp
qed

text \<open>
  Minute 585 of the day is \<^verbatim>\<open>09:45 AM\<close> and \<^verbatim>\<open>09:45\<close>; with a pending appointment
  at 10:00 both requests are answered SlotConflict.
\<close>

theorem twelve_and_twenty_four_hour_forms_agree_witness:
  "text12 585 = ''09:45 AM'' \<and> text24 585 = ''09:45'' \<and>
   checkBookingAvailability utc (on_day 0) (clinic doctor_9_to_5 [booked ''10:00'' ''pending''])
     (request_at ''09:45 AM'') = SlotConflict \<and>
   checkBookingAvailability utc (on_day 0) (clinic doctor_9_to_5 [booked ''10:00'' ''pending''])
     (request_at ''09:45'') = SlotConflict"
proof -
  have k: "(585::nat) < 1440" by simp
  have a: "text12 585 = ''09:45 AM''" by code_simp
  have b: "text24 585 = ''09:45''" by code_simp
  have r: "(request_at u)\<lparr>body_time := v\<rparr> = request_at v" for u v
    by (simp add: request_at_def)
  have c: "checkBookingAvailability utc (on_day 0)
     (clinic doctor_9_to_5 [booked ''10:00'' ''pending''])
     (request_at ''09:45'') = SlotConflict" by code_simp
  show ?thesis
    using twelve_and_twenty_four_hour_forms_agree
            [where k = 585 and z = utc and c = "on_day 0" and req = "request_at ''09:45''"
               and db = "clinic doctor_9_to_5 [booked ''10:00'' ''pending'']"]
          k c
    by (simp add: a b r)
qed

text \<open>
  Claim C6. A rejected appointment is never to cause a conflict, and a pending or approved
  appointment inside the window from 30 minutes before to 15 minutes after the requested
  time is to give the answer SlotConflict. The handler misses the second half where the
  window crosses midnight: a doctor works from 00:00 to 23:59, 00:10 is requested, and
  the one appointment of the day is at 00:20, ten minutes after the requested time. The
  answer is that the appointment is available, whether the appointment is pending,
  approved or rejected. Where the window stays within the day, lemma
  \<open>conflict_window_inclusive_within_day\<close> shows both halves of the claim.
\<close>

theorem pending_appointment_after_midnight_missed:
  "requestedTime utc (on_day 0) (request_at ''00:10'') = Valid 10 \<and>
   time (booked ''00:20'' ''pending'') = format_HHmm utc (Valid (10 + 10)) \<and>
   checkBookingAvailability utc (on_day 0) (clinic doctor_all_day [booked ''00:20'' ''pending''])
     (request_at ''00:10'') = Inr (Json True ''Appointment available'') \<and>
   checkBookingAvailability utc (on_day 0) (clinic doctor_all_day [booked ''00:20'' ''approved''])
     (request_at ''00:10'') = Inr (Json True ''Appointment available'') \<and>
   checkBookingAvailability utc (on_day 0) (clinic doctor_all_day [booked ''00:20'' ''rejected''])
     (request_at ''00:10'') = Inr (Json True ''Appointment available'')"
  by code_simp

text \<open>
  Claim C7, as stated, fails: the answer also depends on the clock and on the time zone of
  the server. With working hours 09:00 to 17:00, a request at 10:00 is available when the
  three parses fall on one day, and is rejected as out of working hours when midnight
  passes between the parse of the doctor's times and the parse of the requested time. In a
  zone that moves its clocks forward on day 1 at 02:00, a request at 02:30 to a doctor
  who works from 02:00 to 03:00 is available on day 0 and rejected on day 1.
\<close>

theorem clock_and_zone_counterexample:
  "checkBookingAvailability utc (on_day 0) (clinic doctor_9_to_5 []) (request_at ''10:00'') =
     Inr (Json True ''Appointment available'') \<and>
   checkBookingAvailability utc clock_over_midnight (clinic doctor_9_to_5 [])
     (request_at ''10:00'') =
     Inl (AppError
       ''Please select a time within doctor's working hours 09:00 AM to 05:00 PM'' 400) \<and>
   checkBookingAvailability zone_dst (on_day 0) (clinic doctor_2_to_3 []) (request_at ''02:30'') =
     Inr (Json True ''Appointment available'') \<and>
   checkBookingAvailability zone_dst (on_day 1) (clinic doctor_2_to_3 []) (request_at ''02:30'') =
     Inl (AppError
       ''Please select a time within doctor's working hours 03:00 AM to 03:00 AM'' 400)"
  by code_simp

text \<open>
  Claim C7, amended. The answer is a function of the collections, the request body, the
  zone of the server and the days the clock shows at the three parses; the handler writes
  to no collection. In a zone with a fixed offset, two calls with the same collections and
  request body give the same answer whenever, in each call, the three parses fall on one
  day, whatever the two days are.
\<close>

theorem same_day_fixed_offset_deterministic:
  assumes "\<And>d m. localToInstant z d m = d * 1440 + int m - off"
    and "\<And>t. instantToLocal z t = t + off"
    and "today_fromTime c1 = today_requested c1" and "today_toTime c1 = today_requested c1"
    and "today_fromTime c2 = today_requested c2" and "today_toTime c2 = today_requested c2"
  shows "checkBookingAvailability z c1 db req = checkBookingAvailability z c2 db req"
  using checkBookingAvailability_one_day[OF assms(1,2,3,4)]
    checkBookingAvailability_one_day[OF assms(1,2,5,6)]
  by simp

text \<open>The same request on day 19000 and on day 0, in the zone without offset.\<close>

theorem same_day_fixed_offset_deterministic_witness:
  "checkBookingAvailability utc (on_day 19000) (clinic doctor_9_to_5 [booked ''09:45'' ''pending''])
     (request_at ''10:00'') = SlotConflict"
proof -
  have a: "localToInstant utc d m = d * 1440 + int m - 0" for d m by (simp add: utc_def)
  have b: "instantToLocal utc t = t + 0" for t by (simp add: utc_def)
  have c: "today_fromTime (on_day d) = today_requested (on_day d)"
    "today_toTime (on_day d) = today_requested (on_day d)" for d
    by (simp_all add: on_day_def)
  have "checkBookingAvailability utc (on_day 0) (clinic doctor_9_to_5 [booked ''09:45'' ''pending''])
     (request_at ''10:00'') = SlotConflict" by code_simp
  then show ?thesis
    using same_day_fixed_offset_deterministic
            [OF a b c(1) [of 19000] c(2) [of 19000] c(1) [of 0] c(2) [of 0]]
    by simp
qed

text \<open>
  Claim C8, as stated, fails: the handler itself looks the doctor up and raises the error
  for a missing doctor record.
\<close>

theorem missing_doctor_counterexample:
  "checkBookingAvailability utc (on_day 0) \<lparr>Doctor = [], Appointment = []\<rparr>
     (request_at ''10:00'') = Inl (AppError ''Doctor not found'' 404)"
  by code_simp

text \<open>
  Claim C8, amended. When no doctor record has the requested \<^verbatim>\<open>doctorId\<close>, the handler
  answers with the error \<^verbatim>\<open>Doctor not found\<close> (status 404); when there is one, its
  answer is the working-hours error, SlotConflict or Available, and nothing else.
\<close>

theorem outcomes_of_checkBookingAvailability:
  "(case findOne (body_doctorId req) (Doctor db) of
      None \<Rightarrow> checkBookingAvailability z c db req = DoctorNotFound
    | Some doc \<Rightarrow>
        checkBookingAvailability z c db req =
          OutOfWorkingHours (format_hhmmA z (doctorFromTime z c doc))
            (format_hhmmA z (doctorToTime z c doc)) \<or>
        checkBookingAvailability z c db req = SlotConflict \<or>
        checkBookingAvailability z c db req = Available)"
  by (simp add: checkBookingAvailability_None checkBookingAvailability_Some
      split: option.split)

text \<open>A found doctor, a free slot.\<close>

theorem outcomes_of_checkBookingAvailability_witness:
  "checkBookingAvailability utc (on_day 0) (clinic doctor_9_to_5 []) (request_at ''10:00'') =
     Available"
proof -
  have a: "checkBookingAvailability utc (on_day 0) (clinic doctor_9_to_5 [])
             (request_at ''10:00'') \<noteq>
           OutOfWorkingHours (format_hhmmA utc (doctorFromTime utc (on_day 0) doctor_9_to_5))
            (format_hhmmA utc (doctorToTime utc (on_day 0) doctor_9_to_5))"
    by code_simp
  have b: "checkBookingAvailability utc (on_day 0) (clinic doctor_9_to_5 [])
             (request_at ''10:00'') \<noteq> SlotConflict"
    by code_simp
  show ?thesis
    using outcomes_of_checkBookingAvailability
            [where req = "request_at ''10:00''" and db = "clinic doctor_9_to_5 []"
               and z = utc and c = "on_day 0"] a b
    by (simp add: findOne_clinic)
qed

text \<open>
  Claim C9. When the local time of the request is less than 30 minutes after midnight or
  less than 15 minutes before the next one, the lower bound of the query is greater than
  its upper bound as a string, no appointment lies between them, and a request that passes
  the working-hours test is answered Available whatever the appointments are. The two
  equations on the zone say that its offset does not change between the two ends of the
  window; in a zone with a fixed offset they hold at every instant.
\<close>

theorem window_across_midnight_matches_nothing:
  assumes "findOne (body_doctorId req) (Doctor db) = Some doc"
    and "requestedTime z c req = Valid r"
    and "instantToLocal z r mod 1440 < 30 \<or> 1425 \<le> instantToLocal z r mod 1440"
    and "instantToLocal z (r - 30) = instantToLocal z r - 30"
    and "instantToLocal z (r + 15) = instantToLocal z r + 15"
    and "\<not> isBefore (requestedTime z c req) (doctorFromTime z c doc)"
    and "\<not> isAfter (requestedTime z c req) (doctorToTime z c doc)"
  shows "\<not> string_le (windowStart z c req) (windowEnd z c req) \<and>
         filter (in_window z c req) (Appointment db) = [] \<and>
         checkBookingAvailability z c db req = Available"
proof -
  have h: "hours (instantToLocal z (r - 30)) = 23" "hours (instantToLocal z (r + 15)) = 0"
    using window_wraps[OF assms(3)] by (simp_all add: assms(4,5))
  have ws: "windowStart z c req =
              CHR ''2'' # CHR ''3'' # '':'' @ zeroFill2 (minute (instantToLocal z (r - 30)))"
    by (simp add: windowStart_def assms(2) h zeroFill2_23)
  have we: "windowEnd z c req =
              CHR ''0'' # CHR ''0'' # '':'' @ zeroFill2 (minute (instantToLocal z (r + 15)))"
    by (simp add: windowEnd_def assms(2) h zeroFill2_0)
  have cc: "char_code (CHR ''0'') < char_code (CHR ''2'')" by (simp add: char_code_def)
  have n: "\<not> in_window z c req a" for a
    unfolding in_window_def ws we using no_string_between[OF cc] by blast
  have 1: "\<not> string_le (windowStart z c req) (windowEnd z c req)"
    unfolding ws we by (simp add: char_code_def)
  have 2: "filter (in_window z c req) (Appointment db) = []"
    by (simp add: n)
  have 3: "checkBookingAvailability z c db req = Available"
    using assms(6,7) by (simp add: checkBookingAvailability_Some[OF assms(1)] n)
  show ?thesis using 1 2 3 by simp
qed

text \<open>
  Requests at 00:10 and at 23:50, each with an approved appointment at exactly the
  requested time.
\<close>

theorem window_across_midnight_matches_nothing_witness:
  "checkBookingAvailability utc (on_day 0) (clinic doctor_all_day [booked ''00:10'' ''approved''])
     (request_at ''00:10'') = Available \<and>
   checkBookingAvailability utc (on_day 0) (clinic doctor_all_day [booked ''23:50'' ''approved''])
     (request_at ''23:50'') = Available"
proof -
  have f: "findOne (body_doctorId (request_at x)) (Doctor (clinic doctor_all_day as)) =
           Some doctor_all_day" for x as
    by (simp add: findOne_clinic_any doctor_all_day_def)
  have l: "instantToLocal utc t = t" for t by (simp add: utc_def)
  have r1: "requestedTime utc (on_day 0) (request_at ''00:10'') = Valid 10" by code_simp
  have r2: "requestedTime utc (on_day 0) (request_at ''23:50'') = Valid 1430" by code_simp
  have m1: "instantToLocal utc 10 mod 1440 < 30 \<or> 1425 \<le> instantToLocal utc 10 mod 1440"
    by (simp add: l)
  have m2: "instantToLocal utc 1430 mod 1440 < 30 \<or> 1425 \<le> instantToLocal utc 1430 mod 1440"
    by (simp add: l)
  have s: "instantToLocal utc (t - 30) = instantToLocal utc t - 30" for t by (simp add: l)
  have e: "instantToLocal utc (t + 15) = instantToLocal utc t + 15" for t by (simp add: l)
  have b1: "\<not> isBefore (requestedTime utc (on_day 0) (request_at ''00:10''))
                 (doctorFromTime utc (on_day 0) doctor_all_day)"
    by code_simp
  have a1: "\<not> isAfter (requestedTime utc (on_day 0) (request_at ''00:10''))
                 (doctorToTime utc (on_day 0) doctor_all_day)"
    by code_simp
  have b2: "\<not> isBefore (requestedTime utc (on_day 0) (request_at ''23:50''))
                 (doctorFromTime utc (on_day 0) doctor_all_day)"
    by code_simp
  have a2: "\<not> isAfter (requestedTime utc (on_day 0) (request_at ''23:50''))
                 (doctorToTime utc (on_day 0) doctor_all_day)"
    by code_simp
  show ?thesis
    using window_across_midnight_matches_nothing
            [OF f [of _ "[booked ''00:10'' ''approved'']"] r1 m1 s e b1 a1]
          window_across_midnight_matches_nothing
            [OF f [of _ "[booked ''23:50'' ''approved'']"] r2 m2 s e b2 a2]
    by simp
qed

text \<open>
  Claim C10, as stated, fails: a doctor record with the times \<^verbatim>\<open>09:00 AM\<close> and
  \<^verbatim>\<open>05:00 PM\<close> parses, to 09:00 and 05:00, and a request at 10:00 is rejected as out
  of working hours.
\<close>

theorem doctor_12_hour_counterexample:
  "doctorFromTime utc (on_day 0) doctor_12_hour = Valid 540 \<and>
   doctorToTime utc (on_day 0) doctor_12_hour = Valid 300 \<and>
   checkBookingAvailability utc (on_day 0) (clinic doctor_12_hour []) (request_at ''10:00'') =
     Inl (AppError
       ''Please select a time within doctor's working hours 09:00 AM to 05:00 AM'' 400)"
  by code_simp

text \<open>
  Claim C10, amended. The doctor's times are parsed with the one format \<^verbatim>\<open>HH:mm\<close>, which
  reads a time in the 12-hour form as the hour and minute it shows and ignores AM and PM.
  For a doctor whose two times are both invalid, no request is rejected as out of working
  hours: the answer is SlotConflict or Available.
\<close>

theorem doctor_times_parsed_forgivingly:
  "(k < 1440 \<longrightarrow>
      moment_format z today (text12 k) format_HH_mm =
        Valid (localToInstant z today (hour12 k * 60 + k mod 60))) \<and>
   (findOne (body_doctorId req) (Doctor db) = Some doc \<and>
    doctorFromTime z c doc = Invalid \<and> doctorToTime z c doc = Invalid \<longrightarrow>
      checkBookingAvailability z c db req = SlotConflict \<or>
      checkBookingAvailability z c db req = Available)"
proof -
  have 1: "k < 1440 \<Longrightarrow>
      moment_format z today (text12 k) format_HH_mm =
        Valid (localToInstant z today (hour12 k * 60 + k mod 60))"
    by (simp add: moment_format_def to_moment_def configFromStringAndFormat_HH_mm_text12)
  have 2: "findOne (body_doctorId req) (Doctor db) = Some doc \<Longrightarrow>
    doctorFromTime z c doc = Invalid \<Longrightarrow> doctorToTime z c doc = Invalid \<Longrightarrow>
      checkBookingAvailability z c db req = SlotConflict \<or>
      checkBookingAvailability z c db req = Available"
    by (cases "requestedTime z c req") (simp_all add: checkBookingAvailability_Some)
  show ?thesis using 1 2 by blast
qed

text \<open>
  \<^verbatim>\<open>05:00 PM\<close> is read as 05:00, and a doctor with the times \<^verbatim>\<open>morning\<close> and
  \<^verbatim>\<open>evening\<close> accepts a request at 03:00.
\<close>

theorem doctor_times_parsed_forgivingly_witness:
  "moment_format utc 0 ''05:00 PM'' format_HH_mm = Valid 300 \<and>
   checkBookingAvailability utc (on_day 0) (clinic doctor_no_hours []) (request_at ''03:00'') =
     Available"
proof -
  have k: "(1020::nat) < 1440" by simp
  have t: "text12 1020 = ''05:00 PM''" by code_simp
  have h: "hour12 1020 = 5" by code_simp
  have l: "localToInstant utc 0 m = int m" for m by (simp add: utc_def)
  have f: "findOne (body_doctorId (request_at ''03:00'')) (Doctor (clinic doctor_no_hours [])) =
           Some doctor_no_hours"
    by (simp add: findOne_clinic_any doctor_no_hours_def)
  have i1: "doctorFromTime utc (on_day 0) doctor_no_hours = Invalid" by code_simp
  have i2: "doctorToTime utc (on_day 0) doctor_no_hours = Invalid" by code_simp
  have n: "checkBookingAvailability utc (on_day 0) (clinic doctor_no_hours [])
             (request_at ''03:00'') \<noteq> SlotConflict" by code_simp
  show ?thesis
    using doctor_times_parsed_forgivingly
            [where k = 1020 and today = 0 and z = utc and c = "on_day 0"
               and req = "request_at ''03:00''"
               and db = "clinic doctor_no_hours []" and doc = doctor_no_hours]
          k f i1 i2 n
    by (simp add: t h l)
qed

end
